theory Spec2Isabelle
  imports Complex_Main "HOL-Library.FSet"
begin

section \<open>Python values\<close>

text \<open>
  The values the SDK handles are what \<open>json.loads\<close> and \<open>response.json()\<close> return:
  \<open>None\<close>, booleans, integers, strings, lists and dictionaries with string keys.
  A dictionary is an association list read with \<open>map_of\<close>. Numbers with a fraction or
  an exponent (Python floats) are not part of the model.
\<close>

datatype json =
    JNull
  | JBool bool
  | JInt int
  | JStr string
  | JArr "json list"
  | JObj "(string \<times> json) list"

text \<open>Python truthiness, as used by \<open>not x\<close> and \<open>x or y\<close>.\<close>

fun truthy :: "json \<Rightarrow> bool" where
  "truthy JNull = False"
| "truthy (JBool b) = b"
| "truthy (JInt i) = (i \<noteq> 0)"
| "truthy (JStr s) = (s \<noteq> [])"
| "truthy (JArr xs) = (xs \<noteq> [])"
| "truthy (JObj kvs) = (kvs \<noteq> [])"

definition py_or :: "json \<Rightarrow> json \<Rightarrow> json" where
  "py_or a b = (if truthy a then a else b)"

text \<open>\<open>d.get(key, default)\<close> on a dictionary; \<open>d.get(key)\<close> is \<open>dict_get d key JNull\<close>.\<close>

definition dict_get :: "(string \<times> json) list \<Rightarrow> string \<Rightarrow> json \<Rightarrow> json" where
  "dict_get d k dflt = (case map_of d k of None \<Rightarrow> dflt | Some v \<Rightarrow> v)"

text \<open>The integer a Python number stands for (\<open>bool\<close> is a subclass of \<open>int\<close>).\<close>

fun as_int :: "json \<Rightarrow> int option" where
  "as_int (JInt i) = Some i"
| "as_int (JBool b) = Some (if b then 1 else 0)"
| "as_int _ = None"

section \<open>Error taxonomy (errors.py)\<close>

datatype error_kind =
    Generic
  | Authentication
  | NotFound
  | RateLimit
  | InsufficientCredits
  | Validation
  | InvalidCode
  | WebhookVerification

text \<open>
  A message is either a value passed through unchanged or an f-string, kept as its
  literal pieces and the values substituted into it.
\<close>

datatype fpart = Lit string | Val json

datatype message = Plain json | FString "fpart list"

record onesub_error =
  kind :: error_kind
  message :: message
  code :: string
  status_code :: int
  details :: json
  attrs :: "(string \<times> json) list"

text \<open>
  What a function of the SDK can raise: one of its own errors, or an exception of the
  interpreter. \<open>Exception\<close> stands for any other exception, by its text; only a
  webhook handler raises it.
\<close>

datatype exn =
    Raise onesub_error
  | AttributeError
  | TypeError
  | KeyError
  | Exception string

text \<open>\<open>OneSubError.__init__\<close>: \<open>self.details = details or {}\<close>.\<close>

definition OneSubError :: "message \<Rightarrow> string \<Rightarrow> int \<Rightarrow> json \<Rightarrow> onesub_error" where
  "OneSubError msg c sc dets =
     \<lparr>kind = Generic, message = msg, code = c, status_code = sc,
      details = py_or dets (JObj []), attrs = []\<rparr>"

definition AuthenticationError :: "message \<Rightarrow> onesub_error" where
  "AuthenticationError msg = (OneSubError msg ''UNAUTHORIZED'' 401 JNull)\<lparr>kind := Authentication\<rparr>"

definition NotFoundError :: "message \<Rightarrow> onesub_error" where
  "NotFoundError msg = (OneSubError msg ''NOT_FOUND'' 404 JNull)\<lparr>kind := NotFound\<rparr>"

definition RateLimitError :: "json \<Rightarrow> json \<Rightarrow> json \<Rightarrow> onesub_error" where
  "RateLimitError retry_after limit remaining =
     (OneSubError
        (FString [Lit ''Rate limit exceeded. Retry after '', Val retry_after, Lit '' seconds.''])
        ''RATE_LIMIT_EXCEEDED'' 429 JNull)
     \<lparr>kind := RateLimit,
      attrs := [(''retry_after'', retry_after), (''limit'', limit), (''remaining'', remaining)]\<rparr>"

text \<open>
  \<open>required - current_balance\<close>: defined on numbers, a \<open>TypeError\<close> on every other
  value a JSON body can hold.
\<close>

definition py_sub :: "json \<Rightarrow> json \<Rightarrow> exn + json" where
  "py_sub a b =
     (case (as_int a, as_int b) of
        (Some x, Some y) \<Rightarrow> Inr (JInt (x - y))
      | _ \<Rightarrow> Inl TypeError)"

definition InsufficientCreditsError :: "json \<Rightarrow> json \<Rightarrow> exn + onesub_error" where
  "InsufficientCreditsError current_balance required =
     (case py_sub required current_balance of
        Inl e \<Rightarrow> Inl e
      | Inr shortfall \<Rightarrow>
          Inr ((OneSubError
                  (FString [Lit ''Insufficient credits. Current: '', Val current_balance,
                            Lit '', Required: '', Val required])
                  ''INSUFFICIENT_CREDITS'' 400 JNull)
               \<lparr>kind := InsufficientCredits,
                attrs := [(''current_balance'', current_balance), (''required'', required),
                           (''shortfall'', shortfall)]\<rparr>))"

definition ValidationError :: "message \<Rightarrow> json \<Rightarrow> onesub_error" where
  "ValidationError msg dets = (OneSubError msg ''VALIDATION_ERROR'' 400 dets)\<lparr>kind := Validation\<rparr>"

definition InvalidCodeError :: "message \<Rightarrow> onesub_error" where
  "InvalidCodeError msg = (OneSubError msg ''INVALID_CODE'' 400 JNull)\<lparr>kind := InvalidCode\<rparr>"

definition WebhookVerificationError :: "string \<Rightarrow> onesub_error" where
  "WebhookVerificationError msg =
     (OneSubError (Plain (JStr msg)) ''WEBHOOK_VERIFICATION_FAILED'' 401 JNull)
     \<lparr>kind := WebhookVerification\<rparr>"

text \<open>
  \<open>parse_api_error\<close> never returns: every branch raises. Its value here is the
  exception raised. A body that is not a dictionary has no \<open>get\<close>.
\<close>

fun parse_api_error :: "int \<Rightarrow> json \<Rightarrow> exn" where
  "parse_api_error sc (JObj body) =
     (let msg = py_or (py_or (dict_get body ''message'' JNull) (dict_get body ''error'' JNull))
                      (JStr ''Unknown error'')
      in if sc = 401 then Raise (AuthenticationError (Plain msg))
         else if sc = 404 then Raise (NotFoundError (Plain msg))
         else if sc = 429 then
           Raise (RateLimitError (dict_get body ''retry_after'' (JInt 60))
                                 (dict_get body ''limit'' (JInt 100))
                                 (dict_get body ''remaining'' (JInt 0)))
         else if sc = 400 then
           (if dict_get body ''error'' JNull = JStr ''INSUFFICIENT_CREDITS'' then
              (case InsufficientCreditsError (dict_get body ''current_balance'' (JInt 0))
                                             (dict_get body ''required'' (JInt 0)) of
                 Inl e \<Rightarrow> e
               | Inr err \<Rightarrow> Raise err)
            else Raise (ValidationError (Plain msg) (JObj body)))
         else Raise (OneSubError (Plain msg) ''API_ERROR'' sc (JObj body)))"
| "parse_api_error sc _ = AttributeError"

section \<open>Transport (http.py)\<close>

record HttpClient =
  api_key :: string
  base_url :: string
  timeout :: int
  max_retries :: int
  debug :: bool

text \<open>\<open>base_url.rstrip("/")\<close>.\<close>

definition rstrip_slash :: "string \<Rightarrow> string" where
  "rstrip_slash s = rev (dropWhile (\<lambda>c. c = CHR ''/'') (rev s))"

definition HttpClient_init :: "string \<Rightarrow> string \<Rightarrow> int \<Rightarrow> int \<Rightarrow> bool \<Rightarrow> HttpClient" where
  "HttpClient_init key url tmo retries dbg =
     \<lparr>api_key = key, base_url = rstrip_slash url, timeout = tmo, max_retries = retries,
      debug = dbg\<rparr>"

text \<open>
  What one call of \<open>session.request\<close> can do: answer, time out, or fail with another
  \<open>requests\<close> exception (carrying its \<open>str(e)\<close>). For a response, \<open>json_result\<close> is
  what \<open>response.json()\<close> does: \<open>Inr\<close> the decoded body, or \<open>Inl\<close> the text of the
  \<open>JSONDecodeError\<close> it raises. That exception is both a \<open>ValueError\<close> and a
  \<open>requests.exceptions.RequestException\<close> (requests 2.27 and later).
\<close>

record Response =
  resp_status :: int
  json_result :: "string + json"
  resp_text :: string

datatype send_result =
    Responded Response
  | Timeout
  | RequestException string

text \<open>
  The network: the outcome of the \<open>k\<close>-th call of \<open>session.request\<close> made by one
  \<open>request\<close>, given the method, url, json data and timeout it is called with.
\<close>

type_synonym session = "nat \<Rightarrow> string \<Rightarrow> string \<Rightarrow> json option \<Rightarrow> int \<Rightarrow> send_result"

text \<open>\<open>response.ok\<close>: \<open>raise_for_status\<close> raises exactly for 400 to 599.\<close>

definition ok :: "Response \<Rightarrow> bool" where
  "ok r = (\<not> (400 \<le> resp_status r \<and> resp_status r < 600))"

text \<open>
  \<open>_calculate_backoff\<close>, with the value drawn by \<open>random.random()\<close> as an argument.
\<close>

definition calculate_backoff :: "real \<Rightarrow> nat \<Rightarrow> real" where
  "calculate_backoff jitter attempt = min (1 * 2 ^ attempt + jitter) 30"

text \<open>What a caller can observe of one \<open>request\<close> besides its result.\<close>

record trace =
  attempts :: nat
  sleeps :: "real list"

text \<open>
  The body of the \<open>for attempt in range(self.max_retries + 1)\<close> loop, by recursion on
  the attempts still to make. \<open>parse_api_error\<close> raises in every branch and
  \<open>except OneSubError: raise\<close> passes its error on, as nothing catches the other
  exceptions it can raise; only the three \<open>requests\<close> exceptions reach the backoff.
  \<open>_log\<close> only prints when \<open>debug\<close> is set and is left out; \<open>time.sleep\<close> is
  recorded in the trace.
\<close>

fun request_loop ::
  "HttpClient \<Rightarrow> session \<Rightarrow> (nat \<Rightarrow> real) \<Rightarrow> string \<Rightarrow> string \<Rightarrow> json option \<Rightarrow>
   nat list \<Rightarrow> onesub_error option \<Rightarrow> trace \<Rightarrow> (exn + json) \<times> trace" where
  "request_loop c net jitter meth url data [] last_error tr =
     (case last_error of
        Some e \<Rightarrow> (Inl (Raise e), tr)
      | None \<Rightarrow>
          (Inl (Raise (OneSubError (Plain (JStr ''Request failed after retries''))
                         ''NETWORK_ERROR'' 0 JNull)), tr))"
| "request_loop c net jitter meth url data (attempt # rest) last_error tr =
     (let tr1 = tr\<lparr>attempts := attempts tr + 1\<rparr>;
          retry = (\<lambda>err.
            let tr2 = (if int attempt < max_retries c
                       then tr1\<lparr>sleeps := sleeps tr1 @ [calculate_backoff (jitter attempt) attempt]\<rparr>
                       else tr1)
            in request_loop c net jitter meth url data rest (Some err) tr2)
      in case net attempt meth url data (timeout c) of
           Responded response \<Rightarrow>
             (if ok response then
                (case json_result response of
                   Inr j \<Rightarrow> (Inr j, tr1)
                 | Inl e \<Rightarrow> retry (OneSubError (Plain (JStr e)) ''NETWORK_ERROR'' 0 JNull))
              else
                (let body = (case json_result response of
                               Inr j \<Rightarrow> j
                             | Inl e \<Rightarrow> JObj [(''message'', JStr (resp_text response))])
                 in if 400 \<le> resp_status response \<and> resp_status response < 500
                       \<and> resp_status response \<noteq> 429
                    then (Inl (parse_api_error (resp_status response) body), tr1)
                    else (Inl (parse_api_error (resp_status response) body), tr1)))
         | Timeout \<Rightarrow>
             retry (OneSubError
                      (FString [Lit ''Request timed out after '', Val (JInt (timeout c)), Lit ''s''])
                      ''TIMEOUT'' 0 JNull)
         | RequestException e \<Rightarrow>
             retry (OneSubError (Plain (JStr e)) ''NETWORK_ERROR'' 0 JNull))"

definition request ::
  "HttpClient \<Rightarrow> session \<Rightarrow> (nat \<Rightarrow> real) \<Rightarrow> string \<Rightarrow> string \<Rightarrow> json option \<Rightarrow>
   (exn + json) \<times> trace" where
  "request c net jitter meth path data =
     request_loop c net jitter meth (base_url c @ path) data
       [0 ..< nat (max_retries c + 1)] None \<lparr>attempts = 0, sleeps = []\<rparr>"

section \<open>Signature verifier (utils.py)\<close>

subsection \<open>Strings\<close>

text \<open>\<open>s.split(sep)\<close> for a separator of one character: never empty, \<open>"".split(",") == [""]\<close>.\<close>

fun split_on :: "char \<Rightarrow> string \<Rightarrow> string list" where
  "split_on sep [] = [[]]"
| "split_on sep (c # cs) =
     (if c = sep then [] # split_on sep cs
      else (case split_on sep cs of
              p # ps \<Rightarrow> (c # p) # ps
            | [] \<Rightarrow> [[c]]))"

text \<open>
  \<open>str(n)\<close> for an integer: decimal digits, most significant first, with a leading
  minus sign for a negative number.
\<close>

definition digit_char :: "nat \<Rightarrow> char" where
  "digit_char d = char_of (48 + d)"

fun str_nat :: "nat \<Rightarrow> string" where
  "str_nat n = (if n < 10 then [digit_char n] else str_nat (n div 10) @ [digit_char (n mod 10)])"

declare str_nat.simps [simp del]

definition str_int :: "int \<Rightarrow> string" where
  "str_int i = (if i < 0 then CHR ''-'' # str_nat (nat (- i)) else str_nat (nat i))"

text \<open>
  \<open>int(s)\<close> for a string, \<open>None\<close> standing for the \<open>ValueError\<close>: surrounding
  whitespace is dropped, one sign is allowed, then decimal digits, where single
  underscores may stand between two digits. A character is a code point below 256:
  the whitespace \<open>int\<close> drops there is tab, line feed, vertical tab, form feed,
  carriage return, space, next line (0x85) and no-break space (0xA0), and not the
  separators 0x1C to 0x1F. The whitespace and digits of other scripts that Python
  also accepts are left out, as is the limit Python 3.11 puts on the number of digits.
\<close>

definition is_space :: "char \<Rightarrow> bool" where
  "is_space c = (c \<in> set [CHR 0x09, CHR 0x0A, CHR 0x0B, CHR 0x0C, CHR 0x0D, CHR 0x20,
                           CHR 0x85, CHR 0xA0])"

definition strip :: "string \<Rightarrow> string" where
  "strip s = rev (dropWhile is_space (rev (dropWhile is_space s)))"

definition is_digit :: "char \<Rightarrow> bool" where
  "is_digit c = (48 \<le> (of_char c :: nat) \<and> (of_char c :: nat) \<le> 57)"

definition digit_of :: "char \<Rightarrow> nat" where
  "digit_of c = of_char c - 48"

fun digits_value :: "nat \<Rightarrow> string \<Rightarrow> nat option" where
  "digits_value acc [] = Some acc"
| "digits_value acc [c] = (if is_digit c then Some (acc * 10 + digit_of c) else None)"
| "digits_value acc (c # d # cs) =
     (if is_digit c then digits_value (acc * 10 + digit_of c) (d # cs)
      else if c = CHR ''_'' \<and> is_digit d then digits_value (acc * 10 + digit_of d) cs
      else None)"

definition unsigned_value :: "string \<Rightarrow> nat option" where
  "unsigned_value s =
     (case s of
        [] \<Rightarrow> None
      | c # cs \<Rightarrow> if is_digit c then digits_value (digit_of c) cs else None)"

definition py_int :: "string \<Rightarrow> int option" where
  "py_int s =
     (case strip s of
        [] \<Rightarrow> None
      | c # cs \<Rightarrow>
          if c = CHR ''-'' then map_option (\<lambda>n. - int n) (unsigned_value cs)
          else if c = CHR ''+'' then map_option int (unsigned_value cs)
          else map_option int (unsigned_value (c # cs)))"

subsection \<open>Signatures\<close>

text \<open>
  \<open>hmac.new(key, msg, hashlib.sha256).hexdigest()\<close> is the standard library's: the
  model takes it as the argument \<open>hmac_sha256\<close>, key first. What the library
  promises of a hex digest of SHA-256 is its shape: 64 lowercase hexadecimal digits.
\<close>

type_synonym hmac = "string \<Rightarrow> string \<Rightarrow> string"

definition is_hexdigest :: "string \<Rightarrow> bool" where
  "is_hexdigest s = (length s = 64 \<and> list_all (\<lambda>c. c \<in> set ''0123456789abcdef'') s)"

definition create_hmac_signature :: "hmac \<Rightarrow> string \<Rightarrow> string \<Rightarrow> string" where
  "create_hmac_signature hmac_sha256 payload secret = hmac_sha256 secret payload"

text \<open>
  The loop of \<open>parse_signature_header\<close> over the comma-separated parts, carrying
  \<open>(timestamp, signature)\<close>; \<open>part.split("=", 1)\<close> cuts at the first \<open>=\<close>.
\<close>

fun parse_parts :: "string list \<Rightarrow> string option \<times> string option \<Rightarrow> string option \<times> string option" where
  "parse_parts [] acc = acc"
| "parse_parts (part # rest) (timestamp, signature) =
     (if CHR ''='' \<in> set part then
        (let key = takeWhile (\<lambda>c. c \<noteq> CHR ''='') part;
             val = tl (dropWhile (\<lambda>c. c \<noteq> CHR ''='') part)
         in if key = ''t'' then parse_parts rest (Some val, signature)
            else if key = ''v1'' then parse_parts rest (timestamp, Some val)
            else parse_parts rest (timestamp, signature))
      else parse_parts rest (timestamp, signature))"

definition parse_signature_header :: "string \<Rightarrow> string option \<times> string option" where
  "parse_signature_header header = parse_parts (split_on CHR '','' header) (None, None)"

text \<open>
  \<open>hmac.compare_digest\<close> on two \<open>str\<close> arguments raises \<open>TypeError\<close> unless both are
  ASCII; otherwise it is equality (in constant time, which the model does not see).
\<close>

definition is_ascii :: "char \<Rightarrow> bool" where
  "is_ascii c = ((of_char c :: nat) < 128)"

definition compare_digest :: "string \<Rightarrow> string \<Rightarrow> exn + bool" where
  "compare_digest a b =
     (if list_all is_ascii a \<and> list_all is_ascii b then Inr (a = b) else Inl TypeError)"

text \<open>\<open>not x\<close> for an optional string: true for \<open>None\<close> and for the empty string.\<close>

definition py_not :: "string option \<Rightarrow> bool" where
  "py_not x = (case x of None \<Rightarrow> True | Some s \<Rightarrow> s = [])"

text \<open>\<open>verify_signature\<close>, with \<open>int(time.time())\<close> as the argument \<open>now\<close>.\<close>

definition verify_signature :: "hmac \<Rightarrow> int \<Rightarrow> string \<Rightarrow> string \<Rightarrow> string \<Rightarrow> int \<Rightarrow> exn + bool" where
  "verify_signature hmac_sha256 now payload signature secret tolerance_seconds =
     (case parse_signature_header signature of
        (timestamp, sig) \<Rightarrow>
          if py_not timestamp \<or> py_not sig then Inr False
          else (case (timestamp, sig) of
                  (Some t, Some s) \<Rightarrow>
                    (case py_int t of
                       None \<Rightarrow> Inr False
                     | Some ts \<Rightarrow>
                         if \<bar>now - ts\<bar> > tolerance_seconds then Inr False
                         else
                           (let signed_payload = t @ ''.'' @ payload;
                                expected = create_hmac_signature hmac_sha256 signed_payload secret
                            in compare_digest expected s))
                | _ \<Rightarrow> Inr False))"

text \<open>\<open>generate_signature\<close>, with \<open>int(time.time())\<close> as the argument \<open>now\<close>.\<close>

definition generate_signature :: "hmac \<Rightarrow> int \<Rightarrow> string \<Rightarrow> string \<Rightarrow> string" where
  "generate_signature hmac_sha256 now payload secret =
     (let timestamp = now;
          signed_payload = str_int timestamp @ ''.'' @ payload;
          sig = create_hmac_signature hmac_sha256 signed_payload secret
      in ''t='' @ str_int timestamp @ '',v1='' @ sig)"

section \<open>Webhook dispatcher (webhooks.py)\<close>

text \<open>
  A handler is called with the event; it returns (\<open>None\<close>) or raises (\<open>Some\<close> the
  exception).
\<close>

type_synonym WebhookHandler = "json \<Rightarrow> exn option"

text \<open>
  The keys of a Python set or dictionary: lists and dictionaries are unhashable, and
  \<open>True == 1\<close>, \<open>False == 0\<close> are the same key. \<open>py_key\<close> is the representative of a
  hashable value.
\<close>

fun hashable :: "json \<Rightarrow> bool" where
  "hashable (JArr xs) = False"
| "hashable (JObj kvs) = False"
| "hashable _ = True"

fun py_key :: "json \<Rightarrow> json" where
  "py_key (JBool b) = JInt (if b then 1 else 0)"
| "py_key v = v"

record WebhooksClient =
  secret :: string
  tolerance_seconds :: int
  handlers :: "string \<rightharpoonup> WebhookHandler"
  processed_events :: "json fset"
  max_processed :: int

definition WebhooksClient_init :: "string \<Rightarrow> int \<Rightarrow> WebhooksClient" where
  "WebhooksClient_init sec tol =
     \<lparr>secret = sec, tolerance_seconds = tol, handlers = Map.empty,
      processed_events = {||}, max_processed = 10000\<rparr>"

definition verify :: "hmac \<Rightarrow> int \<Rightarrow> WebhooksClient \<Rightarrow> string \<Rightarrow> string \<Rightarrow> exn + bool" where
  "verify hmac_sha256 now self payload signature =
     (if payload = [] \<or> signature = [] then Inr False
      else verify_signature hmac_sha256 now payload signature (secret self) (tolerance_seconds self))"

text \<open>\<open>verify_or_raise\<close> returns nothing: \<open>None\<close> is the normal return.\<close>

definition verify_or_raise :: "hmac \<Rightarrow> int \<Rightarrow> WebhooksClient \<Rightarrow> string \<Rightarrow> string \<Rightarrow> exn option" where
  "verify_or_raise hmac_sha256 now self payload signature =
     (case verify hmac_sha256 now self payload signature of
        Inl e \<Rightarrow> Some e
      | Inr valid \<Rightarrow>
          if \<not> valid then Some (Raise (WebhookVerificationError ''Invalid webhook signature''))
          else None)"

text \<open>
  \<open>json.loads\<close> is the standard library's: the model takes it as the argument
  \<open>loads\<close>, \<open>None\<close> standing for the \<open>JSONDecodeError\<close>.
\<close>

definition construct_event ::
  "hmac \<Rightarrow> int \<Rightarrow> (string \<Rightarrow> json option) \<Rightarrow> WebhooksClient \<Rightarrow> string \<Rightarrow> string \<Rightarrow> exn + json" where
  "construct_event hmac_sha256 now loads self payload signature =
     (case verify_or_raise hmac_sha256 now self payload signature of
        Some e \<Rightarrow> Inl e
      | None \<Rightarrow>
          (case loads payload of
             Some event \<Rightarrow> Inr event
           | None \<Rightarrow> Inl (Raise (WebhookVerificationError ''Invalid webhook payload''))))"

definition on :: "WebhooksClient \<Rightarrow> string \<Rightarrow> WebhookHandler \<Rightarrow> WebhooksClient" where
  "on self event_type handler = self\<lparr>handlers := (handlers self)(event_type \<mapsto> handler)\<rparr>"

definition off :: "WebhooksClient \<Rightarrow> string \<Rightarrow> WebhooksClient" where
  "off self event_type = self\<lparr>handlers := (handlers self)(event_type := None)\<rparr>"

text \<open>
  \<open>self._handlers.get(event_type)\<close>: the registry has string keys, and the type of an
  event is whatever the payload holds.
\<close>

fun handlers_get :: "(string \<rightharpoonup> WebhookHandler) \<Rightarrow> json \<Rightarrow> exn + WebhookHandler option" where
  "handlers_get m (JStr t) = Inr (m t)"
| "handlers_get m (JArr xs) = Inl TypeError"
| "handlers_get m (JObj kvs) = Inl TypeError"
| "handlers_get m _ = Inr None"

definition is_processed :: "WebhooksClient \<Rightarrow> json \<Rightarrow> exn + bool" where
  "is_processed self event_id =
     (if hashable event_id then Inr (py_key event_id |\<in>| processed_events self)
      else Inl TypeError)"

definition clear_processed :: "WebhooksClient \<Rightarrow> WebhooksClient" where
  "clear_processed self = self\<lparr>processed_events := {||}\<rparr>"

text \<open>
  \<open>_mark_processed\<close>. \<open>set.pop()\<close> removes a member the caller cannot choose: the
  member it removes is the argument \<open>victim\<close>, and on an empty set it raises
  \<open>KeyError\<close>.
\<close>

definition mark_processed :: "json \<Rightarrow> WebhooksClient \<Rightarrow> json \<Rightarrow> exn + WebhooksClient" where
  "mark_processed victim self event_id =
     (if int (fcard (processed_events self)) \<ge> max_processed self then
        (if processed_events self = {||} then Inl KeyError
         else Inr (self\<lparr>processed_events :=
                           finsert (py_key event_id) (processed_events self |-| {|victim|})\<rparr>))
      else Inr (self\<lparr>processed_events := finsert (py_key event_id) (processed_events self)\<rparr>))"

text \<open>
  \<open>handle\<close> returns its result, the client after the call, and the calls of handlers
  it made, in order.
\<close>

definition handle ::
  "json \<Rightarrow> WebhooksClient \<Rightarrow> json \<Rightarrow> (exn + bool) \<times> WebhooksClient \<times> (WebhookHandler \<times> json) list" where
  "handle victim self event =
     (case event of
        JObj ev \<Rightarrow>
          (let event_id = dict_get ev ''id'' (JStr [])
           in if \<not> hashable event_id then (Inl TypeError, self, [])
              else if py_key event_id |\<in>| processed_events self then (Inr True, self, [])
              else
                (let event_type = dict_get ev ''type'' (JStr [])
                 in case handlers_get (handlers self) event_type of
                      Inl e \<Rightarrow> (Inl e, self, [])
                    | Inr None \<Rightarrow> (Inr False, self, [])
                    | Inr (Some handler) \<Rightarrow>
                        (case mark_processed victim self event_id of
                           Inl e \<Rightarrow> (Inl e, self, [])
                         | Inr self' \<Rightarrow>
                             (case handler event of
                                Some e \<Rightarrow> (Inl e, self', [(handler, event)])
                              | None \<Rightarrow> (Inr True, self', [(handler, event)])))))
      | _ \<Rightarrow> (Inl AttributeError, self, []))"

definition process ::
  "hmac \<Rightarrow> int \<Rightarrow> (string \<Rightarrow> json option) \<Rightarrow> json \<Rightarrow> WebhooksClient \<Rightarrow> string \<Rightarrow> string \<Rightarrow>
   (exn + json) \<times> WebhooksClient \<times> (WebhookHandler \<times> json) list" where
  "process hmac_sha256 now loads victim self payload signature =
     (case construct_event hmac_sha256 now loads self payload signature of
        Inl e \<Rightarrow> (Inl e, self, [])
      | Inr event \<Rightarrow>
          (case handle victim self event of
             (Inl e, self', calls) \<Rightarrow> (Inl e, self', calls)
           | (Inr handled, self', calls) \<Rightarrow> (Inr event, self', calls)))"

text \<open>
  The clients a program can hold: a new one, and what the operations make of one.
  \<open>victim\<close> ranges over the members \<open>set.pop()\<close> can remove.
\<close>

inductive reachable :: "WebhooksClient \<Rightarrow> bool" where
  r_init: "reachable (WebhooksClient_init sec tol)"
| r_on: "reachable s \<Longrightarrow> reachable (on s event_type handler)"
| r_off: "reachable s \<Longrightarrow> reachable (off s event_type)"
| r_clear: "reachable s \<Longrightarrow> reachable (clear_processed s)"
| r_handle: "reachable s \<Longrightarrow> victim |\<in>| processed_events s \<or> processed_events s = {||} \<Longrightarrow>
             handle victim s event = (r, s', calls) \<Longrightarrow> reachable s'"
| r_process: "reachable s \<Longrightarrow> victim |\<in>| processed_events s \<or> processed_events s = {||} \<Longrightarrow>
              process hmac_sha256 now loads victim s payload signature = (r, s', calls) \<Longrightarrow>
              reachable s'"

section \<open>Properties of the error mapping\<close>

lemma details_body: "py_or (JObj body) (JObj []) = JObj body"
  by (cases body) (simp_all add: py_or_def)

text \<open>
  On a JSON object the mapping builds one of the typed errors, unless the status is
  400 with \<open>error == "INSUFFICIENT_CREDITS"\<close> and a balance or requirement that is
  not an integer.
\<close>

lemma parse_api_error_typed:
  assumes "sc = 400 \<and> dict_get body ''error'' JNull = JStr ''INSUFFICIENT_CREDITS'' \<longrightarrow>
             (\<exists>bal req. dict_get body ''current_balance'' (JInt 0) = JInt bal
                        \<and> dict_get body ''required'' (JInt 0) = JInt req)"
  shows "\<exists>e. parse_api_error sc (JObj body) = Raise e
           \<and> kind e =
               (if sc = 401 then Authentication
                else if sc = 404 then NotFound
                else if sc = 429 then RateLimit
                else if sc = 400 then
                  (if dict_get body ''error'' JNull = JStr ''INSUFFICIENT_CREDITS''
                   then InsufficientCredits else Validation)
                else Generic)"
  using assms
  by (auto simp: Let_def AuthenticationError_def NotFoundError_def RateLimitError_def
        InsufficientCreditsError_def ValidationError_def OneSubError_def py_sub_def)

text \<open>
  C5, as the spec states it, lets every JSON body with \<open>error == "INSUFFICIENT_CREDITS"\<close>
  and status 400 map to an InsufficientCredits error. The constructor computes
  \<open>required - current_balance\<close>, so a body whose \<open>required\<close> is the string \<open>"20"\<close>
  raises \<open>TypeError\<close> and no error of the taxonomy is built.
\<close>

theorem parse_api_error_insufficient_credits_counterexample:
  "parse_api_error 400
     (JObj [(''error'', JStr ''INSUFFICIENT_CREDITS''), (''current_balance'', JInt 5),
            (''required'', JStr ''20'')]) = TypeError"
  by (simp add: dict_get_def InsufficientCreditsError_def py_sub_def)

text \<open>
  C5, amended: for every status code and every body that is a JSON object, 401 maps to
  Authentication and 404 to NotFound; 429 maps to RateLimit with \<open>retry_after\<close>,
  \<open>limit\<close> and \<open>remaining\<close> taken from the body and defaulting to 60, 100 and 0; 400
  with \<open>error == "INSUFFICIENT_CREDITS"\<close> maps to InsufficientCredits with
  \<open>current_balance\<close> and \<open>required\<close> taken from the body and defaulting to 0, and
  \<open>shortfall = required - current_balance\<close>, provided both values are integers; any
  other 400 maps to Validation with the whole body as its details; every other status
  maps to the generic API error carrying the status code and the body.
\<close>

theorem parse_api_error_mapping:
  "(sc = 401 \<longrightarrow>
      (\<exists>e. parse_api_error sc (JObj body) = Raise e \<and> kind e = Authentication
           \<and> status_code e = 401))
 \<and> (sc = 404 \<longrightarrow>
      (\<exists>e. parse_api_error sc (JObj body) = Raise e \<and> kind e = NotFound
           \<and> status_code e = 404))
 \<and> (sc = 429 \<longrightarrow>
      (\<exists>e. parse_api_error sc (JObj body) = Raise e \<and> kind e = RateLimit
           \<and> map_of (attrs e) ''retry_after'' = Some (dict_get body ''retry_after'' (JInt 60))
           \<and> map_of (attrs e) ''limit'' = Some (dict_get body ''limit'' (JInt 100))
           \<and> map_of (attrs e) ''remaining'' = Some (dict_get body ''remaining'' (JInt 0))))
 \<and> (sc = 400 \<and> dict_get body ''error'' JNull = JStr ''INSUFFICIENT_CREDITS''
      \<and> dict_get body ''current_balance'' (JInt 0) = JInt bal
      \<and> dict_get body ''required'' (JInt 0) = JInt req \<longrightarrow>
      (\<exists>e. parse_api_error sc (JObj body) = Raise e \<and> kind e = InsufficientCredits
           \<and> map_of (attrs e) ''current_balance'' = Some (JInt bal)
           \<and> map_of (attrs e) ''required'' = Some (JInt req)
           \<and> map_of (attrs e) ''shortfall'' = Some (JInt (req - bal))))
 \<and> (sc = 400 \<and> dict_get body ''error'' JNull \<noteq> JStr ''INSUFFICIENT_CREDITS'' \<longrightarrow>
      (\<exists>e. parse_api_error sc (JObj body) = Raise e \<and> kind e = Validation
           \<and> details e = JObj body))
 \<and> (sc \<noteq> 401 \<and> sc \<noteq> 404 \<and> sc \<noteq> 429 \<and> sc \<noteq> 400 \<longrightarrow>
      (\<exists>e. parse_api_error sc (JObj body) = Raise e \<and> kind e = Generic
           \<and> code e = ''API_ERROR'' \<and> status_code e = sc \<and> details e = JObj body))"
  by (simp add: Let_def AuthenticationError_def NotFoundError_def RateLimitError_def
        InsufficientCreditsError_def ValidationError_def OneSubError_def py_sub_def details_body)

text \<open>
  The mapping at three bodies: a shortage of 15 credits (balance 5, 20 required), a
  rate limit whose body gives only \<open>limit\<close>, and a 503.
\<close>

theorem parse_api_error_mapping_witness:
  "(\<exists>e. parse_api_error 400 (JObj [(''error'', JStr ''INSUFFICIENT_CREDITS''),
                                      (''current_balance'', JInt 5), (''required'', JInt 20)]) = Raise e
        \<and> kind e = InsufficientCredits
        \<and> map_of (attrs e) ''shortfall'' = Some (JInt 15))
 \<and> (\<exists>e. parse_api_error 429 (JObj [(''limit'', JInt 7)]) = Raise e
        \<and> kind e = RateLimit
        \<and> map_of (attrs e) ''retry_after'' = Some (JInt 60)
        \<and> map_of (attrs e) ''limit'' = Some (JInt 7)
        \<and> map_of (attrs e) ''remaining'' = Some (JInt 0))
 \<and> (\<exists>e. parse_api_error 503 (JObj [(''message'', JStr ''down'')]) = Raise e
        \<and> kind e = Generic \<and> status_code e = 503
        \<and> details e = JObj [(''message'', JStr ''down'')])"
  using parse_api_error_mapping[of 400 "[(''error'', JStr ''INSUFFICIENT_CREDITS''),
                                      (''current_balance'', JInt 5), (''required'', JInt 20)]" 5 20]
        parse_api_error_mapping[of 429 "[(''limit'', JInt 7)]" 0 0]
        parse_api_error_mapping[of 503 "[(''message'', JStr ''down'')]" 0 0]
  by (simp add: dict_get_def) blast

section \<open>Properties of the transport\<close>

text \<open>
  The retry loop does retry what it catches: two timeouts, then a 200, with
  \<open>max_retries = 3\<close>, give the body after three attempts and two sleeps.
\<close>

lemma request_timeouts_retried:
  "request \<lparr>api_key = ''sk_test'', base_url = ''https://1sub.io/api/v1'', timeout = 30,
             max_retries = 3, debug = False\<rparr>
     (\<lambda>k m u d t. if k < 2 then Timeout
                   else Responded \<lparr>resp_status = 200,
                                    json_result = Inr (JObj [(''success'', JBool True)]),
                                    resp_text = ''{\"success\":true}''\<rparr>)
     (\<lambda>k. 0) ''POST'' ''/credits/consume'' None
   = (Inr (JObj [(''success'', JBool True)]),
      \<lparr>attempts = 3, sleeps = [calculate_backoff 0 0, calculate_backoff 0 1]\<rparr>)"
  by (simp add: request_def upt_rec ok_def)

text \<open>
  C1 says that a 429 on the first two attempts and a 200 with \<open>{"success": true}\<close> on
  the third, with \<open>max_retries = 3\<close>, give the success body after three attempts and
  backoff sleeps. In the code \<open>parse_api_error\<close> raises for the first 429 and
  \<open>except OneSubError: raise\<close> passes the error on: the rate-limit error is raised
  after one attempt, and nothing is slept.
\<close>

theorem request_rate_limit_raised_at_first_attempt:
  "request \<lparr>api_key = ''sk_test'', base_url = ''https://1sub.io/api/v1'', timeout = 30,
             max_retries = 3, debug = False\<rparr>
     (\<lambda>k m u d t. if k < 2 then Responded \<lparr>resp_status = 429, json_result = Inr (JObj []),
                                              resp_text = ''{}''\<rparr>
                   else Responded \<lparr>resp_status = 200,
                                    json_result = Inr (JObj [(''success'', JBool True)]),
                                    resp_text = ''{\"success\":true}''\<rparr>)
     (\<lambda>k. 0) ''POST'' ''/credits/consume'' None
   = (Inl (Raise (RateLimitError (JInt 60) (JInt 100) (JInt 0))), \<lparr>attempts = 1, sleeps = []\<rparr>)"
  by (simp add: request_def upt_rec ok_def dict_get_def)

text \<open>
  C2, as the spec states it, lets every first response with a 4xx status other than
  429 raise the mapped typed error. The mapping reads the body with \<open>body.get\<close>:
  a 404 whose body is the JSON list \<open>[]\<close> raises \<open>AttributeError\<close>, which \<open>request\<close>
  does not catch, and no NotFound error is built.
\<close>

theorem request_client_error_non_object_body_counterexample:
  "request \<lparr>api_key = ''sk_test'', base_url = ''https://1sub.io/api/v1'', timeout = 30,
             max_retries = 3, debug = False\<rparr>
     (\<lambda>k m u d t. Responded \<lparr>resp_status = 404, json_result = Inr (JArr []),
                                resp_text = ''[]''\<rparr>)
     (\<lambda>k. 0) ''GET'' ''/credits'' None
   = (Inl AttributeError, \<lparr>attempts = 1, sleeps = []\<rparr>)"
  by (simp add: request_def upt_rec ok_def)

text \<open>
  C2, amended: when the first response has a 4xx status other than 429, \<open>request\<close>
  stops after that single attempt, with no retry and no backoff sleep, and raises
  what the error mapping raises for that status and body. When the body is a JSON
  object (a body that is not JSON counts as \<open>{"message": text}\<close>) and, for a 400 with
  \<open>error == "INSUFFICIENT_CREDITS"\<close>, \<open>current_balance\<close> and \<open>required\<close> are integers,
  that is the mapped typed error: Authentication for 401, NotFound for 404,
  InsufficientCredits or Validation for 400, the generic API error otherwise.
\<close>

theorem request_client_error_immediate:
  assumes "net 0 meth (base_url c @ path) data (timeout c) = Responded r"
    and "400 \<le> resp_status r" "resp_status r < 500" "resp_status r \<noteq> 429"
    and "0 \<le> max_retries c"
  shows "request c net jitter meth path data =
           (Inl (parse_api_error (resp_status r)
                   (case json_result r of
                      Inr j \<Rightarrow> j
                    | Inl e \<Rightarrow> JObj [(''message'', JStr (resp_text r))])),
            \<lparr>attempts = 1, sleeps = []\<rparr>)
       \<and> ((case json_result r of
               Inr j \<Rightarrow> j
             | Inl e \<Rightarrow> JObj [(''message'', JStr (resp_text r))]) = JObj body
            \<and> (resp_status r = 400 \<and> dict_get body ''error'' JNull = JStr ''INSUFFICIENT_CREDITS'' \<longrightarrow>
                 (\<exists>bal req. dict_get body ''current_balance'' (JInt 0) = JInt bal
                            \<and> dict_get body ''required'' (JInt 0) = JInt req)) \<longrightarrow>
            (\<exists>e. request c net jitter meth path data
                    = (Inl (Raise e), \<lparr>attempts = 1, sleeps = []\<rparr>)
                 \<and> kind e =
                     (if resp_status r = 401 then Authentication
                      else if resp_status r = 404 then NotFound
                      else if resp_status r = 400 then
                        (if dict_get body ''error'' JNull = JStr ''INSUFFICIENT_CREDITS''
                         then InsufficientCredits else Validation)
                      else Generic)))"
proof -
  let ?b = "case json_result r of
              Inr j \<Rightarrow> j
            | Inl e \<Rightarrow> JObj [(''message'', JStr (resp_text r))]"
  from assms(5) have "[0 ..< nat (max_retries c + 1)] = 0 # [1 ..< nat (max_retries c + 1)]"
    by (simp add: upt_rec)
  then have req: "request c net jitter meth path data =
           (Inl (parse_api_error (resp_status r) ?b), \<lparr>attempts = 1, sleeps = []\<rparr>)"
    using assms(1-4) by (simp add: request_def ok_def)
  have typed: "\<exists>e. request c net jitter meth path data
                    = (Inl (Raise e), \<lparr>attempts = 1, sleeps = []\<rparr>)
                 \<and> kind e =
                     (if resp_status r = 401 then Authentication
                      else if resp_status r = 404 then NotFound
                      else if resp_status r = 400 then
                        (if dict_get body ''error'' JNull = JStr ''INSUFFICIENT_CREDITS''
                         then InsufficientCredits else Validation)
                      else Generic)"
    if b: "?b = JObj body"
      and i: "resp_status r = 400 \<and> dict_get body ''error'' JNull = JStr ''INSUFFICIENT_CREDITS'' \<longrightarrow>
                 (\<exists>bal req. dict_get body ''current_balance'' (JInt 0) = JInt bal
                            \<and> dict_get body ''required'' (JInt 0) = JInt req)"
  proof -
    from parse_api_error_typed[OF i] obtain e where
      e: "parse_api_error (resp_status r) (JObj body) = Raise e"
      and k: "kind e =
               (if resp_status r = 401 then Authentication
                else if resp_status r = 404 then NotFound
                else if resp_status r = 429 then RateLimit
                else if resp_status r = 400 then
                  (if dict_get body ''error'' JNull = JStr ''INSUFFICIENT_CREDITS''
                   then InsufficientCredits else Validation)
                else Generic)"
      by blast
    from req b e have "request c net jitter meth path data
                    = (Inl (Raise e), \<lparr>attempts = 1, sleeps = []\<rparr>)" by simp
    moreover from k assms(4) have "kind e =
                     (if resp_status r = 401 then Authentication
                      else if resp_status r = 404 then NotFound
                      else if resp_status r = 400 then
                        (if dict_get body ''error'' JNull = JStr ''INSUFFICIENT_CREDITS''
                         then InsufficientCredits else Validation)
                      else Generic)" by simp
    ultimately show ?thesis by blast
  qed
  from req typed show ?thesis by blast
qed

text \<open>A 404 with the body \<open>{"message": "not found"}\<close>: NotFound, one attempt, no sleep.\<close>

theorem request_client_error_immediate_witness:
  "request \<lparr>api_key = ''sk_test'', base_url = ''https://1sub.io/api/v1'', timeout = 30,
             max_retries = 3, debug = False\<rparr>
     (\<lambda>k m u d t. Responded \<lparr>resp_status = 404,
                                json_result = Inr (JObj [(''message'', JStr ''not found'')]),
                                resp_text = ''{\"message\":\"not found\"}''\<rparr>)
     (\<lambda>k. 0) ''GET'' ''/credits'' None
   = (Inl (Raise (NotFoundError (Plain (JStr ''not found'')))), \<lparr>attempts = 1, sleeps = []\<rparr>)
 \<and> (\<exists>e. request \<lparr>api_key = ''sk_test'', base_url = ''https://1sub.io/api/v1'', timeout = 30,
                   max_retries = 3, debug = False\<rparr>
           (\<lambda>k m u d t. Responded \<lparr>resp_status = 404,
                                      json_result = Inr (JObj [(''message'', JStr ''not found'')]),
                                      resp_text = ''{\"message\":\"not found\"}''\<rparr>)
           (\<lambda>k. 0) ''GET'' ''/credits'' None
         = (Inl (Raise e), \<lparr>attempts = 1, sleeps = []\<rparr>) \<and> kind e = NotFound)"
  using request_client_error_immediate[of
      "\<lambda>k m u d t. Responded \<lparr>resp_status = 404,
                                json_result = Inr (JObj [(''message'', JStr ''not found'')]),
                                resp_text = ''{\"message\":\"not found\"}''\<rparr>"
      "''GET''"
      "\<lparr>api_key = ''sk_test'', base_url = ''https://1sub.io/api/v1'', timeout = 30,
             max_retries = 3, debug = False\<rparr>"
      "''/credits''" None _ "\<lambda>k. 0" "[(''message'', JStr ''not found'')]"]
  by (simp add: dict_get_def py_or_def NotFoundError_def OneSubError_def)

section \<open>Properties of the signature verifier\<close>

subsection \<open>Splitting, printing and reading integers\<close>

lemma split_on_nonempty: "split_on sep s \<noteq> []"
  by (induction s) (auto split: list.splits)

lemma split_on_no_sep: "sep \<notin> set a \<Longrightarrow> split_on sep a = [a]"
  by (induction a) auto

lemma split_on_append: "sep \<notin> set a \<Longrightarrow> split_on sep (a @ sep # b) = a # split_on sep b"
  by (induction a) auto

lemma of_char_digit_char: "d < 10 \<Longrightarrow> (of_char (digit_char d) :: nat) = 48 + d"
  by (simp add: digit_char_def)

lemma digit_char_neq: "d < 10 \<Longrightarrow> (of_char c :: nat) < 48 \<or> 57 < (of_char c :: nat) \<Longrightarrow> digit_char d \<noteq> c"
  using of_char_digit_char[of d] by auto

lemma digit_char_props:
  assumes "d < 10"
  shows "is_digit (digit_char d)" "digit_of (digit_char d) = d" "\<not> is_space (digit_char d)"
    "digit_char d \<noteq> CHR '',''" "digit_char d \<noteq> CHR ''=''" "digit_char d \<noteq> CHR ''-''" "digit_char d \<noteq> CHR ''+''"
  using assms
  by (simp_all add: is_digit_def digit_of_def of_char_digit_char is_space_def digit_char_neq)

lemma minus_not_space: "\<not> is_space CHR ''-''"
  by (simp add: is_space_def)

lemma str_nat_digits: "c \<in> set (str_nat n) \<Longrightarrow> \<exists>d<10. c = digit_char d"
proof (induction n arbitrary: c rule: str_nat.induct)
  case (1 n)
  show ?case
  proof (cases "n < 10")
    case True
    with "1.prems" show ?thesis by (auto simp: str_nat.simps[of n])
  next
    case False
    with "1.prems" have "c \<in> set (str_nat (n div 10)) \<or> c = digit_char (n mod 10)"
      by (auto simp: str_nat.simps[of n])
    then show ?thesis
    proof
      assume "c \<in> set (str_nat (n div 10))"
      with "1.IH" False show ?thesis by blast
    next
      assume "c = digit_char (n mod 10)"
      moreover have "n mod 10 < 10" by simp
      ultimately show ?thesis by blast
    qed
  qed
qed

lemma str_nat_nonempty: "str_nat n \<noteq> []"
  by (subst str_nat.simps) simp

lemma digits_value_all_digits:
  "list_all is_digit s \<Longrightarrow> digits_value acc s = Some (foldl (\<lambda>a c. a * 10 + digit_of c) acc s)"
  by (induction acc s rule: digits_value.induct) auto

lemma unsigned_value_all_digits:
  "s \<noteq> [] \<Longrightarrow> list_all is_digit s \<Longrightarrow> unsigned_value s = Some (foldl (\<lambda>a c. a * 10 + digit_of c) 0 s)"
  by (cases s) (auto simp: unsigned_value_def digits_value_all_digits)

lemma foldl_str_nat: "foldl (\<lambda>a c. a * 10 + digit_of c) 0 (str_nat n) = n"
proof (induction n rule: str_nat.induct)
  case (1 n)
  show ?case
  proof (cases "n < 10")
    case True
    then show ?thesis by (simp add: str_nat.simps[of n] digit_char_props)
  next
    case False
    with "1.IH" have "foldl (\<lambda>a c. a * 10 + digit_of c) 0 (str_nat (n div 10)) = n div 10" by simp
    with False show ?thesis
      by (simp add: str_nat.simps[of n] digit_char_props)
  qed
qed

lemma str_nat_all_digits: "list_all is_digit (str_nat n)"
  using str_nat_digits digit_char_props(1) by (fastforce simp: list_all_iff)

lemma unsigned_value_str_nat: "unsigned_value (str_nat n) = Some n"
  by (simp add: unsigned_value_all_digits str_nat_nonempty str_nat_all_digits foldl_str_nat)

lemma strip_no_space: "\<forall>c\<in>set s. \<not> is_space c \<Longrightarrow> strip s = s"
proof -
  assume a: "\<forall>c\<in>set s. \<not> is_space c"
  then have "dropWhile is_space s = s" by (cases s) auto
  moreover from a have "dropWhile is_space (rev s) = rev s" by (cases "rev s") (auto simp: )
  ultimately show ?thesis by (simp add: strip_def)
qed

lemma str_int_chars: "c \<in> set (str_int i) \<Longrightarrow> c = CHR ''-'' \<or> (\<exists>d<10. c = digit_char d)"
  by (auto simp: str_int_def dest: str_nat_digits split: if_splits)

lemma str_int_nonempty: "str_int i \<noteq> []"
  by (simp add: str_int_def str_nat_nonempty)

lemma py_int_str_int: "py_int (str_int i) = Some i"
proof -
  have "\<forall>c\<in>set (str_int i). \<not> is_space c"
    using str_int_chars digit_char_props(3) minus_not_space by blast
  then have s: "strip (str_int i) = str_int i" by (rule strip_no_space)
  show ?thesis
  proof (cases "i < 0")
    case True
    then show ?thesis by (simp add: py_int_def s) (simp add: str_int_def unsigned_value_str_nat)
  next
    case False
    obtain c cs where cs: "str_nat (nat i) = c # cs" using str_nat_nonempty by (cases "str_nat (nat i)") auto
    then have "c \<in> set (str_nat (nat i))" by simp
    then obtain d where "d < 10" "c = digit_char d" using str_nat_digits by blast
    then have "c \<noteq> CHR ''-''" "c \<noteq> CHR ''+''" using digit_char_props by auto
    with False cs show ?thesis using unsigned_value_str_nat[of "nat i"]
      by (simp add: py_int_def s) (simp add: str_int_def)
  qed
qed

subsection \<open>Headers produced by \<open>generate_signature\<close>\<close>

lemma parse_header_generated:
  assumes "CHR '','' \<notin> set ts" "CHR '','' \<notin> set sg"
  shows "parse_signature_header (''t='' @ ts @ '',v1='' @ sg) = (Some ts, Some sg)"
proof -
  have e: "''t='' @ ts @ '',v1='' @ sg = (''t='' @ ts) @ CHR '','' # (''v1='' @ sg)" by simp
  have a: "CHR '','' \<notin> set (''t='' @ ts)" using assms(1) by simp
  have b: "CHR '','' \<notin> set (''v1='' @ sg)" using assms(2) by simp
  have "split_on CHR '','' (''t='' @ ts @ '',v1='' @ sg) = [''t='' @ ts, ''v1='' @ sg]"
    unfolding e split_on_append[OF a] split_on_no_sep[OF b] ..
  then show ?thesis by (simp add: parse_signature_header_def)
qed

lemma hex_char_props:
  assumes "c \<in> set ''0123456789abcdef''"
  shows "c \<noteq> CHR '',''" "is_ascii c"
  using assms by (auto simp: is_ascii_def)

lemma hexdigest_shape:
  assumes "is_hexdigest s"
  shows "s \<noteq> []" "CHR '','' \<notin> set s" "list_all is_ascii s"
proof -
  from assms have len: "length s = 64" and hex: "\<forall>c\<in>set s. c \<in> set ''0123456789abcdef''"
    unfolding is_hexdigest_def list_all_iff by blast+
  from len have "length s \<noteq> 0" by linarith
  then show "s \<noteq> []" by simp
  from hex hex_char_props(1) show "CHR '','' \<notin> set s" by blast
  from hex hex_char_props(2) show "list_all is_ascii s" unfolding list_all_iff by blast
qed

lemma str_int_no_comma: "CHR '','' \<notin> set (str_int i)"
proof
  assume "CHR '','' \<in> set (str_int i)"
  then have "CHR '','' = CHR ''-'' \<or> (\<exists>d<10. CHR '','' = digit_char d)" by (rule str_int_chars)
  then obtain d where "d < 10" "digit_char d = CHR '',''" by auto
  then show False using digit_char_props(4) by blast
qed

lemma verify_generated:
  assumes "\<And>k m. is_hexdigest (H k m)"
  shows "verify_signature H now payload (generate_signature H T payload sec) sec tol
         = Inr (\<bar>now - T\<bar> \<le> tol)"
proof -
  let ?sg = "H sec (str_int T @ ''.'' @ payload)"
  have p: "parse_signature_header (''t='' @ str_int T @ '',v1='' @ ?sg) = (Some (str_int T), Some ?sg)"
    using str_int_no_comma hexdigest_shape(2)[OF assms] by (rule parse_header_generated)
  have ne: "?sg \<noteq> []" and asc: "list_all is_ascii ?sg"
    using hexdigest_shape[OF assms] by auto
  show ?thesis
    using ne asc
    by (simp add: verify_signature_def generate_signature_def create_hmac_signature_def p
          py_not_def str_int_nonempty py_int_str_int compare_digest_def del: append.simps)
qed

lemma verify_missing_field:
  assumes "fst (parse_signature_header header) = None \<or> snd (parse_signature_header header) = None"
  shows "verify_signature H now payload header sec tol = Inr False"
  using assms by (cases "parse_signature_header header") (auto simp: verify_signature_def py_not_def)

lemma verify_bad_timestamp:
  assumes "parse_signature_header header = (Some t, Some s)" "py_int t = None"
  shows "verify_signature H now payload header sec tol = Inr False"
  using assms by (simp add: verify_signature_def)

subsection \<open>Signing, then verifying\<close>

text \<open>
  C3: for every payload and secret, the header that \<open>generate_signature\<close> produces at
  time \<open>T\<close> verifies against the same payload and secret at every time \<open>now\<close> within
  the tolerance of \<open>T\<close>; in particular at the same clock time, with the default
  tolerance of 300 seconds.
\<close>

theorem verify_generate_roundtrip:
  assumes "\<And>k m. is_hexdigest (H k m)" and "\<bar>now - T\<bar> \<le> tol"
  shows "verify_signature H now payload (generate_signature H T payload sec) sec tol = Inr True
       \<and> verify_signature H T payload (generate_signature H T payload sec) sec 300 = Inr True"
  using assms(2) by (simp add: verify_generated[OF assms(1)])

text \<open>A header signed at 1700000000 and verified a minute later.\<close>

theorem verify_generate_roundtrip_witness:
  "verify_signature (\<lambda>k m. replicate 64 CHR ''a'') 1700000060 ''{\"id\": 1}''
     (generate_signature (\<lambda>k m. replicate 64 CHR ''a'') 1700000000 ''{\"id\": 1}'' ''whsec'')
     ''whsec'' 300 = Inr True"
proof -
  have h: "\<And>k m. is_hexdigest ((\<lambda>k m. replicate 64 CHR ''a'') (k::string) (m::string))"
    by (simp add: is_hexdigest_def list_all_iff)
  have t: "\<bar>(1700000060::int) - 1700000000\<bar> \<le> 300" by simp
  from verify_generate_roundtrip[of "\<lambda>k m. replicate 64 CHR ''a''", OF h t] show ?thesis by blast
qed

text \<open>
  C4: for a header that \<open>generate_signature\<close> produced at time \<open>T\<close>, \<open>verify_signature\<close>
  with a tolerance of 300 seconds returns false exactly when \<open>|now - T| > 300\<close>: a
  shift of exactly 300 seconds, either way, still verifies, and a shift of 301 does
  not. For any header it returns false when the timestamp or the \<open>v1\<close> field is
  missing, and when the timestamp is not an integer.
\<close>

theorem verify_signature_tolerance:
  "((\<forall>k m. is_hexdigest (H k m)) \<longrightarrow>
      verify_signature H now payload (generate_signature H T payload sec) sec 300
        = Inr (\<not> \<bar>now - T\<bar> > 300)
    \<and> verify_signature H (T + 300) payload (generate_signature H T payload sec) sec 300 = Inr True
    \<and> verify_signature H (T - 300) payload (generate_signature H T payload sec) sec 300 = Inr True
    \<and> verify_signature H (T + 301) payload (generate_signature H T payload sec) sec 300 = Inr False
    \<and> verify_signature H (T - 301) payload (generate_signature H T payload sec) sec 300 = Inr False)
 \<and> (fst (parse_signature_header header) = None \<or> snd (parse_signature_header header) = None \<longrightarrow>
      verify_signature H now payload header sec tol = Inr False)
 \<and> (parse_signature_header header = (Some t, Some s) \<and> py_int t = None \<longrightarrow>
      verify_signature H now payload header sec tol = Inr False)"
  by (auto simp: verify_generated verify_missing_field verify_bad_timestamp)

text \<open>
  Shifts of 300 and 301 seconds, a header without a timestamp, and a timestamp that
  is not an integer.
\<close>

theorem verify_signature_tolerance_witness:
  "verify_signature (\<lambda>k m. replicate 64 CHR ''a'') 1700000300 ''{}''
     (generate_signature (\<lambda>k m. replicate 64 CHR ''a'') 1700000000 ''{}'' ''whsec'') ''whsec'' 300 = Inr True
 \<and> verify_signature (\<lambda>k m. replicate 64 CHR ''a'') 1700000301 ''{}''
     (generate_signature (\<lambda>k m. replicate 64 CHR ''a'') 1700000000 ''{}'' ''whsec'') ''whsec'' 300 = Inr False
 \<and> verify_signature (\<lambda>k m. replicate 64 CHR ''a'') 1700000000 ''{}'' ''v1=abc'' ''whsec'' 300 = Inr False
 \<and> verify_signature (\<lambda>k m. replicate 64 CHR ''a'') 1700000000 ''{}'' ''t=12x,v1=ab'' ''whsec'' 300 = Inr False"
proof -
  have h: "\<forall>k m. is_hexdigest ((\<lambda>k m. replicate 64 CHR ''a'') (k::string) (m::string))"
    by (simp add: is_hexdigest_def list_all_iff)
  have m: "fst (parse_signature_header ''v1=abc'') = None"
    by (simp add: parse_signature_header_def)
  have p: "parse_signature_header ''t=12x,v1=ab'' = (Some ''12x'', Some ''ab'')"
    by (simp add: parse_signature_header_def)
  have i: "py_int ''12x'' = None"
    by (simp add: py_int_def strip_def is_space_def unsigned_value_def is_digit_def digit_of_def)
  from h m
    verify_signature_tolerance[where H = "\<lambda>k m. replicate 64 CHR ''a''" and T = 1700000000
      and payload = "''{}''" and sec = "''whsec''" and now = 1700000000 and tol = 300
      and header = "''v1=abc''"]
  have a: "verify_signature (\<lambda>k m. replicate 64 CHR ''a'') (1700000000 + 300) ''{}''
     (generate_signature (\<lambda>k m. replicate 64 CHR ''a'') 1700000000 ''{}'' ''whsec'') ''whsec'' 300 = Inr True"
   and b: "verify_signature (\<lambda>k m. replicate 64 CHR ''a'') (1700000000 + 301) ''{}''
     (generate_signature (\<lambda>k m. replicate 64 CHR ''a'') 1700000000 ''{}'' ''whsec'') ''whsec'' 300 = Inr False"
   and c: "verify_signature (\<lambda>k m. replicate 64 CHR ''a'') 1700000000 ''{}'' ''v1=abc'' ''whsec'' 300 = Inr False"
    by blast+
  from p i
    verify_signature_tolerance[where H = "\<lambda>k m. replicate 64 CHR ''a''" and T = 1700000000
      and payload = "''{}''" and sec = "''whsec''" and now = 1700000000 and tol = 300
      and header = "''t=12x,v1=ab''" and t = "''12x''" and s = "''ab''"]
  have d: "verify_signature (\<lambda>k m. replicate 64 CHR ''a'') 1700000000 ''{}'' ''t=12x,v1=ab'' ''whsec'' 300 = Inr False"
    by blast
  from a b c d show ?thesis by simp
qed

section \<open>Properties of the webhook dispatcher\<close>

subsection \<open>The processed set stays within its capacity\<close>

lemma fcard_pop_add:
  assumes "v |\<in>| P"
  shows "fcard (finsert k (P |-| {|v|})) \<le> fcard P"
proof -
  have "fcard (finsert k (P |-| {|v|})) \<le> Suc (fcard (P |-| {|v|}))"
    by (simp add: fcard_finsert_if)
  also have "Suc (fcard (P |-| {|v|})) = fcard P"
    using assms by (rule fcard_Suc_fminus1)
  finally show ?thesis .
qed

lemma mark_processed_bound:
  assumes "max_processed s = 10000" "fcard (processed_events s) \<le> 10000"
    and "victim |\<in>| processed_events s \<or> processed_events s = {||}"
    and "mark_processed victim s event_id = Inr s'"
  shows "max_processed s' = 10000 \<and> fcard (processed_events s') \<le> 10000"
proof (cases "int (fcard (processed_events s)) \<ge> max_processed s")
  case True
  with assms(1,2) have full: "fcard (processed_events s) = 10000" by simp
  then have ne: "processed_events s \<noteq> {||}" by (auto simp: fcard_fempty)
  with assms(3) have v: "victim |\<in>| processed_events s" by simp
  from True ne assms(4)
  have s': "s' = s\<lparr>processed_events := finsert (py_key event_id) (processed_events s |-| {|victim|})\<rparr>"
    by (simp add: mark_processed_def)
  show ?thesis using fcard_pop_add[OF v, of "py_key event_id"] full assms(1) by (simp add: s')
next
  case False
  with assms(4)
  have s': "s' = s\<lparr>processed_events := finsert (py_key event_id) (processed_events s)\<rparr>"
    by (simp add: mark_processed_def)
  from False assms(1) have "fcard (processed_events s) < 10000" by simp
  moreover have "fcard (finsert (py_key event_id) (processed_events s)) \<le> Suc (fcard (processed_events s))"
    by (simp add: fcard_finsert_if)
  ultimately show ?thesis using assms(1) by (simp add: s')
qed

lemma handle_state:
  assumes "handle victim s event = (r, s', calls)"
  shows "s' = s \<or> (\<exists>event_id. mark_processed victim s event_id = Inr s')"
  using assms
  by (auto simp: handle_def Let_def split: json.splits sum.splits option.splits if_splits)

lemma process_state:
  assumes "process H now loads victim s payload signature = (r, s', calls)"
  shows "s' = s \<or> (\<exists>event_id. mark_processed victim s event_id = Inr s')"
proof (cases "construct_event H now loads s payload signature")
  case (Inl e)
  with assms show ?thesis by (simp add: process_def)
next
  case (Inr event)
  obtain r0 s0 c0 where h: "handle victim s event = (r0, s0, c0)" by (cases "handle victim s event") auto
  with Inr assms have "s' = s0" by (cases r0) (simp_all add: process_def)
  with handle_state[OF h] show ?thesis by simp
qed

lemma reachable_inv:
  "reachable s \<Longrightarrow> max_processed s = 10000 \<and> fcard (processed_events s) \<le> 10000"
proof (induction rule: reachable.induct)
  case (r_init sec tol)
  show ?case by (simp add: WebhooksClient_init_def fcard_fempty)
next
  case (r_on s event_type handler)
  then show ?case by (simp add: on_def)
next
  case (r_off s event_type)
  then show ?case by (simp add: off_def)
next
  case (r_clear s)
  then show ?case by (simp add: clear_processed_def fcard_fempty)
next
  case (r_handle s victim event r s' calls)
  from handle_state[OF r_handle.hyps(3)] show ?case
  proof
    assume "s' = s" with r_handle.IH show ?thesis by simp
  next
    assume "\<exists>event_id. mark_processed victim s event_id = Inr s'"
    then obtain event_id where "mark_processed victim s event_id = Inr s'" ..
    with r_handle.IH r_handle.hyps(2) show ?thesis using mark_processed_bound by blast
  qed
next
  case (r_process s victim H now loads payload signature r s' calls)
  from process_state[OF r_process.hyps(3)] show ?case
  proof
    assume "s' = s" with r_process.IH show ?thesis by simp
  next
    assume "\<exists>event_id. mark_processed victim s event_id = Inr s'"
    then obtain event_id where "mark_processed victim s event_id = Inr s'" ..
    with r_process.IH r_process.hyps(2) show ?thesis using mark_processed_bound by blast
  qed
qed

text \<open>
  C9: the processed-event set never has more than 10,000 members: the bound holds for
  a new client and is kept by \<open>handle\<close>, \<open>process\<close>, \<open>clear_processed\<close>, \<open>on\<close> and
  \<open>off\<close>. When the set is full, \<open>_mark_processed\<close> removes one member, whichever
  \<open>set.pop()\<close> picks, before it inserts the new id, so the set does not grow.
\<close>

theorem processed_events_bounded:
  "(reachable s \<longrightarrow> fcard (processed_events s) \<le> 10000)
 \<and> (max_processed s \<le> int (fcard (processed_events s)) \<and> victim |\<in>| processed_events s \<longrightarrow>
      mark_processed victim s event_id =
        Inr (s\<lparr>processed_events := finsert (py_key event_id) (processed_events s |-| {|victim|})\<rparr>)
      \<and> fcard (finsert (py_key event_id) (processed_events s |-| {|victim|}))
          \<le> fcard (processed_events s))"
proof (intro conjI impI)
  assume "reachable s"
  then show "fcard (processed_events s) \<le> 10000" by (simp add: reachable_inv)
next
  assume a: "max_processed s \<le> int (fcard (processed_events s)) \<and> victim |\<in>| processed_events s"
  then have v: "victim |\<in>| processed_events s" and m: "max_processed s \<le> int (fcard (processed_events s))"
    by simp_all
  from v have ne: "processed_events s \<noteq> {||}" by fastforce
  from m ne show "mark_processed victim s event_id =
        Inr (s\<lparr>processed_events := finsert (py_key event_id) (processed_events s |-| {|victim|})\<rparr>)"
    by (simp add: mark_processed_def)
  from v show "fcard (finsert (py_key event_id) (processed_events s |-| {|victim|}))
          \<le> fcard (processed_events s)"
    by (rule fcard_pop_add)
qed

text \<open>
  A client that registered a handler and handled one event is within the bound; a
  client whose set is full at capacity 1 trades the old id for the new one.
\<close>

theorem processed_events_bounded_witness:
  "reachable (fst (snd (handle JNull (on (WebhooksClient_init ''whsec'' 300) ''x'' (\<lambda>e. None))
                          (JObj [(''id'', JStr ''evt_1''), (''type'', JStr ''x'')]))))
 \<and> fcard (processed_events
      (fst (snd (handle JNull (on (WebhooksClient_init ''whsec'' 300) ''x'' (\<lambda>e. None))
                   (JObj [(''id'', JStr ''evt_1''), (''type'', JStr ''x'')]))))) \<le> 10000
 \<and> mark_processed (JStr ''a'')
      \<lparr>secret = ''whsec'', tolerance_seconds = 300, handlers = Map.empty,
       processed_events = {|JStr ''a''|}, max_processed = 1\<rparr> (JStr ''b'')
    = Inr \<lparr>secret = ''whsec'', tolerance_seconds = 300, handlers = Map.empty,
           processed_events = {|JStr ''b''|}, max_processed = 1\<rparr>"
proof -
  let ?s0 = "on (WebhooksClient_init ''whsec'' 300) ''x'' (\<lambda>e. None)"
  let ?h = "handle JNull ?s0 (JObj [(''id'', JStr ''evt_1''), (''type'', JStr ''x'')])"
  let ?full = "\<lparr>secret = ''whsec'', tolerance_seconds = 300, handlers = Map.empty,
       processed_events = {|JStr ''a''|}, max_processed = 1\<rparr>"
  have "reachable ?s0" by (rule r_on) (rule r_init)
  moreover have "JNull |\<in>| processed_events ?s0 \<or> processed_events ?s0 = {||}"
    by (simp add: on_def WebhooksClient_init_def)
  moreover have "?h = (fst ?h, fst (snd ?h), snd (snd ?h))" by simp
  ultimately have r: "reachable (fst (snd ?h))" by (rule r_handle)
  have f: "max_processed ?full \<le> int (fcard (processed_events ?full))
         \<and> JStr ''a'' |\<in>| processed_events ?full"
    by (simp add: fcard_finsert_if fcard_fempty)
  from r processed_events_bounded[of "fst (snd ?h)"]
  have 1: "fcard (processed_events (fst (snd ?h))) \<le> 10000" by blast
  from f processed_events_bounded[of ?full "JStr ''a''" "JStr ''b''"]
  have 2: "mark_processed (JStr ''a'') ?full (JStr ''b'')
         = Inr (?full\<lparr>processed_events := finsert (py_key (JStr ''b'')) (processed_events ?full |-| {|JStr ''a''|})\<rparr>)"
    by blast
  from r 1 2 show ?thesis by simp
qed

subsection \<open>Verification and parsing\<close>

text \<open>
  What \<open>construct_event\<close> does by the outcome of \<open>verify\<close>: verification comes first,
  so the parser is only reached when it returned true.
\<close>

lemma construct_event_cases:
  "(verify H now s payload signature = Inr False \<longrightarrow>
      construct_event H now loads s payload signature
        = Inl (Raise (WebhookVerificationError ''Invalid webhook signature'')))
 \<and> (verify H now s payload signature = Inr True \<and> loads payload = None \<longrightarrow>
      construct_event H now loads s payload signature
        = Inl (Raise (WebhookVerificationError ''Invalid webhook payload'')))
 \<and> (verify H now s payload signature = Inr True \<and> loads payload = Some event \<longrightarrow>
      construct_event H now loads s payload signature = Inr event)
 \<and> (verify H now s payload signature = Inl e \<longrightarrow>
      construct_event H now loads s payload signature = Inl e)"
  by (simp add: construct_event_def verify_or_raise_def)

text \<open>
  C6 says that an invalid signature over a valid JSON body fails with a
  WebhookVerification error, for every payload and header. A header whose timestamp
  is within the tolerance and whose \<open>v1\<close> value holds a character outside ASCII is
  such a signature, and \<open>hmac.compare_digest\<close> raises \<open>TypeError\<close> for it, which
  nothing catches: \<open>construct_event\<close> raises \<open>TypeError\<close>, whatever the HMAC and the
  parser are.
\<close>

theorem construct_event_non_ascii_signature:
  "construct_event H 1700000000 loads (WebhooksClient_init ''whsec'' 300)
     ''{}'' (''t=1700000000,v1='' @ [CHR 0xE9]) = Inl TypeError"
  by (simp add: construct_event_def verify_or_raise_def verify_def verify_signature_def
        WebhooksClient_init_def parse_signature_header_def py_not_def py_int_def strip_def
        is_space_def unsigned_value_def is_digit_def digit_of_def compare_digest_def is_ascii_def)

subsection \<open>Dispatch\<close>

text \<open>
  C7: when the id of an event is already in the processed set, \<open>handle\<close> returns true
  at once: no handler is called and the client (processed set and handler registry)
  is unchanged. In particular, for an event whose id is new and whose type has a
  handler that returns normally, the first \<open>handle\<close> calls that handler once and
  returns true, and a second \<open>handle\<close> of the same event returns true and calls
  nothing.
\<close>

theorem handle_duplicate:
  "(is_processed s (dict_get ev ''id'' (JStr [])) = Inr True \<longrightarrow>
      handle victim s (JObj ev) = (Inr True, s, []))
 \<and> (is_processed s (dict_get ev ''id'' (JStr [])) = Inr False
      \<and> dict_get ev ''type'' (JStr []) = JStr t \<and> handlers s t = Some h \<and> h (JObj ev) = None
      \<and> 0 < max_processed s \<longrightarrow>
      (\<exists>s1. handle victim s (JObj ev) = (Inr True, s1, [(h, JObj ev)])
            \<and> handlers s1 = handlers s
            \<and> handle victim' s1 (JObj ev) = (Inr True, s1, [])))"
  by (auto simp: handle_def is_processed_def mark_processed_def Let_def fcard_fempty split: if_splits)

text \<open>The event \<open>{"id": "evt_1", "type": "x"}\<close>, handled twice with a handler for \<open>x\<close>.\<close>

theorem handle_duplicate_witness:
  "\<exists>s1. handle JNull (on (WebhooksClient_init ''whsec'' 300) ''x'' (\<lambda>e. None))
            (JObj [(''id'', JStr ''evt_1''), (''type'', JStr ''x'')])
          = (Inr True, s1, [(\<lambda>e. None, JObj [(''id'', JStr ''evt_1''), (''type'', JStr ''x'')])])
      \<and> handle JNull s1 (JObj [(''id'', JStr ''evt_1''), (''type'', JStr ''x'')]) = (Inr True, s1, [])"
  using handle_duplicate[of "on (WebhooksClient_init ''whsec'' 300) ''x'' (\<lambda>e. None)"
      "[(''id'', JStr ''evt_1''), (''type'', JStr ''x'')]" JNull "''x''" "\<lambda>e. None" JNull]
  by (simp add: is_processed_def dict_get_def on_def WebhooksClient_init_def) blast

text \<open>
  C8: when the id of an event is not processed and its type has no registered
  handler, \<open>handle\<close> returns false and leaves the client unchanged: no handler is
  called, the registry is the same, and \<open>is_processed\<close> of the id is still false.
\<close>

theorem handle_unregistered:
  assumes "is_processed s (dict_get ev ''id'' (JStr [])) = Inr False"
    and "handlers_get (handlers s) (dict_get ev ''type'' (JStr [])) = Inr None"
  shows "handle victim s (JObj ev) = (Inr False, s, [])
       \<and> is_processed (fst (snd (handle victim s (JObj ev)))) (dict_get ev ''id'' (JStr []))
           = Inr False"
  using assms by (auto simp: handle_def is_processed_def Let_def split: if_splits)

text \<open>The event \<open>{"id": "evt_2", "type": "unregistered"}\<close> on a new client.\<close>

theorem handle_unregistered_witness:
  "handle JNull (WebhooksClient_init ''whsec'' 300)
     (JObj [(''id'', JStr ''evt_2''), (''type'', JStr ''unregistered'')])
   = (Inr False, WebhooksClient_init ''whsec'' 300, [])
 \<and> is_processed (WebhooksClient_init ''whsec'' 300) (JStr ''evt_2'') = Inr False"
  using handle_unregistered[of "WebhooksClient_init ''whsec'' 300"
      "[(''id'', JStr ''evt_2''), (''type'', JStr ''unregistered'')]" JNull]
  by (simp add: is_processed_def dict_get_def WebhooksClient_init_def)



end
